theory Spec2Isabelle
  imports Main
begin

section \<open>The Lambda handler of \<open>my_lambda_function/index.py\<close>\<close>

text \<open>
  The source is one module:
  \<^verbatim>\<open>
  URI = os.getenv('URI', 'https://jsonplaceholder.typicode.com/todos')

  def handler(event, context):
      resp = requests.get(URI).json()
      frame = pandas.DataFrame(resp)
      counts = frame.groupby('completed')['id'].count()
      return {'CompletedCount': counts.to_dict()}
  \<close>
  Every exception of the source is a value \<open>Inl e\<close>; the handler catches none, so an
  error of any step is the outcome of the invocation.
\<close>

subsection \<open>Values\<close>

text \<open>
  A Python float: not-a-number, an infinity, or a finite number, given by its sign, a
  mantissa \<open>m\<close> and a binary exponent \<open>e\<close>. The decoder makes a float of a JSON number with a fraction or an
  exponent, and of the tokens \<open>NaN\<close>, \<open>Infinity\<close> and \<open>-Infinity\<close>, which it accepts
  although they are not JSON.
\<close>

datatype pyfloat =
    NaN
  | Infinity
  | NegInfinity
  | Finite bool nat int

text \<open>
  What \<open>Response.json()\<close> can return: \<open>None\<close>, \<open>bool\<close>, \<open>int\<close>, \<open>float\<close>, \<open>str\<close>, \<open>list\<close> and
  \<open>dict\<close>. A \<open>dict\<close> is an association list read with \<open>map_of\<close>.
\<close>

datatype json =
    JNull
  | JBool bool
  | JInt int
  | JFloat pyfloat
  | JStr string
  | JArr "json list"
  | JObj "(string \<times> json) list"

type_synonym row = "(string \<times> json) list"

text \<open>
  The exceptions: one of \<open>requests\<close> (with the name of its class), the decoder's, a
  \<open>KeyError\<close> of pandas (with the label that was not found; the wording of its message is
  not modelled), and any other error of pandas.
\<close>

datatype error =
    RequestException string
  | JSONDecodeError
  | KeyError string
  | PandasError string

record response =
  status_code :: int
  body :: string

text \<open>
  A data frame built from a list of dicts: the column labels, and one dict per row.
  The cell of row \<open>r\<close> in column \<open>c\<close> is \<open>map_of r c\<close>; \<open>None\<close> is the \<open>NaN\<close> pandas puts
  where the dict has no such key.
\<close>

record frame =
  columns :: "string list"
  rows :: "row list"

subsection \<open>The libraries and the process\<close>

text \<open>
  The behaviour of the libraries that the source does not fix is a parameter:
  \<^item> \<open>requests_get url\<close>: the response of the server, or the exception \<open>requests.get\<close> raises
    (unreachable host, time-out, bad URL);
  \<^item> \<open>json_loads s\<close>: the value the decoder behind \<open>Response.json()\<close> reads from the text
    \<open>s\<close>, \<open>None\<close> when it raises. It raises on text it cannot read; it reads the tokens
    \<open>NaN\<close>, \<open>Infinity\<close> and \<open>-Infinity\<close>, so some text that is not well-formed JSON has a value;
  \<^item> \<open>DataFrame_other v\<close>: what \<open>pandas.DataFrame(v)\<close> does when \<open>v\<close> is not a list of dicts;
  \<^item> \<open>groupby_count_other by col f\<close>: what \<open>f.groupby(by)[col].count()\<close> does when column
    \<open>by\<close> exists and holds a number other than \<open>NaN\<close>, a list or a dict somewhere (numeric
    columns are coerced and compared numerically, lists and dicts are not hashable).
  The result of \<open>count()\<close> is a series: a map from group label to the size counted.
\<close>

record runtime =
  requests_get :: "string \<Rightarrow> error + response"
  json_loads :: "string \<Rightarrow> json option"
  DataFrame_other :: "json \<Rightarrow> error + frame"
  groupby_count_other :: "string \<Rightarrow> string \<Rightarrow> frame \<Rightarrow> error + (json \<rightharpoonup> nat)"

text \<open>
  The state of the process: its environment variables, and the URLs that \<open>requests.get\<close>
  has been called with so far.
\<close>

record world =
  environ :: "string \<rightharpoonup> string"
  get_calls :: "string list"

text \<open>The module's globals, set when the module is loaded.\<close>

record module_globals =
  URI :: string

subsection \<open>Module load\<close>

definition getenv :: "(string \<rightharpoonup> string) \<Rightarrow> string \<Rightarrow> string \<Rightarrow> string" where
  "getenv env key dflt = (case env key of None \<Rightarrow> dflt | Some v \<Rightarrow> v)"

definition default_URI :: string where
  "default_URI = ''https://jsonplaceholder.typicode.com/todos''"

definition load_module :: "world \<Rightarrow> module_globals" where
  "load_module w = \<lparr>URI = getenv (environ w) ''URI'' default_URI\<rparr>"

subsection \<open>The steps of the handler\<close>

definition and_then :: "error + 'a \<Rightarrow> ('a \<Rightarrow> error + 'b) \<Rightarrow> error + 'b" where
  "and_then x f = (case x of Inl e \<Rightarrow> Inl e | Inr v \<Rightarrow> f v)"

text \<open>\<open>requests.get(url)\<close>: the call is recorded, its outcome is the library's.\<close>

definition get :: "runtime \<Rightarrow> string \<Rightarrow> world \<Rightarrow> (error + response) \<times> world" where
  "get rt url w = (requests_get rt url, w\<lparr>get_calls := get_calls w @ [url]\<rparr>)"

text \<open>\<open>Response.json()\<close>: decodes the body whatever the status code is.\<close>

definition json :: "runtime \<Rightarrow> response \<Rightarrow> error + json" where
  "json rt r = (case json_loads rt (body r) of None \<Rightarrow> Inl JSONDecodeError | Some v \<Rightarrow> Inr v)"

text \<open>\<open>as_records vs\<close> is the list of dicts when every element of \<open>vs\<close> is a dict.\<close>

fun as_records :: "json list \<Rightarrow> row list option" where
  "as_records [] = Some []"
| "as_records (JObj r # vs) = map_option ((#) r) (as_records vs)"
| "as_records (_ # vs) = None"

text \<open>The column labels: the keys of the dicts, each once, in order of first appearance.\<close>

fun add_keys :: "string list \<Rightarrow> string list \<Rightarrow> string list" where
  "add_keys acc [] = acc"
| "add_keys acc (k # ks) = add_keys (if k \<in> set acc then acc else acc @ [k]) ks"

definition column_labels :: "row list \<Rightarrow> string list" where
  "column_labels rs = fold (\<lambda>r acc. add_keys acc (map fst r)) rs []"

definition DataFrame :: "runtime \<Rightarrow> json \<Rightarrow> error + frame" where
  "DataFrame rt v =
     (case v of
        JArr vs \<Rightarrow>
          (case as_records vs of
             Some rs \<Rightarrow> Inr \<lparr>columns = column_labels rs, rows = rs\<rparr>
           | None \<Rightarrow> DataFrame_other rt v)
      | _ \<Rightarrow> DataFrame_other rt v)"

text \<open>
  A cell is missing (\<open>isna\<close>) when it is \<open>NaN\<close> or \<open>None\<close>: the \<open>NaN\<close> that fills an absent
  key, the \<open>None\<close> of a JSON \<open>null\<close>, or the float \<open>NaN\<close> read from the body.
\<close>

definition isna :: "json option \<Rightarrow> bool" where
  "isna c = (c = None \<or> c = Some JNull \<or> c = Some (JFloat NaN))"

text \<open>The cells that are grouped by their literal value: missing ones, booleans and strings.\<close>

fun plain_key :: "json option \<Rightarrow> bool" where
  "plain_key None = True"
| "plain_key (Some JNull) = True"
| "plain_key (Some (JBool b)) = True"
| "plain_key (Some (JStr s)) = True"
| "plain_key (Some (JInt n)) = False"
| "plain_key (Some (JFloat x)) = (x = NaN)"
| "plain_key (Some (JArr vs)) = False"
| "plain_key (Some (JObj r)) = False"

text \<open>
  \<open>f.groupby(by)[col].count()\<close>. \<open>groupby\<close> raises \<open>KeyError\<close> when there is no column \<open>by\<close>,
  the selection \<open>[col]\<close> raises \<open>KeyError\<close> when there is no column \<open>col\<close>. The rows whose
  \<open>by\<close> cell is missing belong to no group (\<open>dropna=True\<close> is the default of \<open>groupby\<close>);
  every other value of the \<open>by\<close> column labels one group, and \<open>count\<close> gives each group the
  number of its rows whose \<open>col\<close> cell is not missing.
\<close>

definition group_sizes :: "string \<Rightarrow> string \<Rightarrow> row list \<Rightarrow> (json \<rightharpoonup> nat)" where
  "group_sizes by col rs =
     (\<lambda>k. if \<not> isna (Some k) \<and> Some k \<in> set (map (\<lambda>r. map_of r by) rs)
          then Some (length (filter (\<lambda>r. map_of r by = Some k \<and> \<not> isna (map_of r col)) rs))
          else None)"

definition groupby_count :: "runtime \<Rightarrow> string \<Rightarrow> string \<Rightarrow> frame \<Rightarrow> error + (json \<rightharpoonup> nat)" where
  "groupby_count rt by col f =
     (if by \<notin> set (columns f) then Inl (KeyError by)
      else if \<not> list_all (\<lambda>r. plain_key (map_of r by)) (rows f) then groupby_count_other rt by col f
      else if col \<notin> set (columns f) then Inl (KeyError col)
      else Inr (group_sizes by col (rows f)))"

text \<open>\<open>Series.to_dict()\<close>: the same map, the sizes as Python integers.\<close>

definition to_dict :: "(json \<rightharpoonup> nat) \<Rightarrow> (json \<rightharpoonup> int)" where
  "to_dict s = (\<lambda>k. map_option int (s k))"

subsection \<open>The handler\<close>

definition handler ::
  "module_globals \<Rightarrow> runtime \<Rightarrow> 'e \<Rightarrow> 'c \<Rightarrow> world \<Rightarrow> (error + (string \<rightharpoonup> (json \<rightharpoonup> int))) \<times> world" where
  "handler m rt event context w =
     (let (got, w') = get rt (URI m) w;
          resp = and_then got (json rt);
          frame = and_then resp (DataFrame rt);
          counts = and_then frame (groupby_count rt ''completed'' ''id'')
      in (and_then counts (\<lambda>c. Inr [''CompletedCount'' \<mapsto> to_dict c]), w'))"

text \<open>The sum of all counts of a result mapping.\<close>

definition sum_counts :: "(json \<rightharpoonup> int) \<Rightarrow> int" where
  "sum_counts d = (\<Sum>k\<in>dom d. the (d k))"

subsection \<open>Example upstreams\<close>

text \<open>
  A server that answers every GET with status \<open>st\<close> and body \<open>b\<close>, where the decoder reads
  \<open>v\<close> from \<open>b\<close> and nothing from any other text; the unmodelled cases of pandas raise.
\<close>

definition upstream :: "int \<Rightarrow> string \<Rightarrow> json option \<Rightarrow> runtime" where
  "upstream st b v =
     \<lparr>requests_get = (\<lambda>url. Inr \<lparr>status_code = st, body = b\<rparr>),
      json_loads = (\<lambda>s. if s = b then v else None),
      DataFrame_other = (\<lambda>v. Inl (PandasError ''DataFrame'')),
      groupby_count_other = (\<lambda>by col f. Inl (PandasError ''groupby''))\<rparr>"

definition unreachable :: runtime where
  "unreachable =
     \<lparr>requests_get = (\<lambda>url. Inl (RequestException ''ConnectionError'')),
      json_loads = (\<lambda>s. None),
      DataFrame_other = (\<lambda>v. Inl (PandasError ''DataFrame'')),
      groupby_count_other = (\<lambda>by col f. Inl (PandasError ''groupby''))\<rparr>"

definition fresh :: "(string \<rightharpoonup> string) \<Rightarrow> world" where
  "fresh env = \<lparr>environ = env, get_calls = []\<rparr>"

definition module0 :: module_globals where
  "module0 = load_module (fresh Map.empty)"

definition todo :: "int \<Rightarrow> bool \<Rightarrow> json" where
  "todo i c = JObj [(''id'', JInt i), (''completed'', JBool c)]"

definition todos_body :: string where
  \<open>todos_body = ''[{"id":1,"completed":true},{"id":2,"completed":false},{"id":3,"completed":true}]''\<close>

definition empty_body :: string where
  "empty_body = ''[]''"

definition partial_body :: string where
  \<open>partial_body = ''[{"id":1,"completed":true},{"id":2,"completed":false},{"id":3}]''\<close>

definition dropped_body :: string where
  \<open>dropped_body = ''[{"id":1},{"id":2,"completed":null},{"id":3,"completed":false}]''\<close>

definition one_body :: string where
  \<open>one_body = ''[{"id":1,"completed":true}]''\<close>





section \<open>Properties\<close>

subsection \<open>The outcome and the effect of an invocation\<close>

lemma handler_outcome:
  "fst (handler m rt event context w) =
     and_then (and_then (and_then (and_then (requests_get rt (URI m)) (json rt)) (DataFrame rt))
       (groupby_count rt ''completed'' ''id'')) (\<lambda>c. Inr [''CompletedCount'' \<mapsto> to_dict c])"
  by (simp add: handler_def get_def)

lemma handler_world:
  "snd (handler m rt event context w) = w\<lparr>get_calls := get_calls w @ [URI m]\<rparr>"
  by (simp add: handler_def get_def)

subsection \<open>Frames built from a list of dicts\<close>

lemma as_records_map: "as_records (map JObj rs) = Some rs"
  by (induction rs) simp_all

lemma set_add_keys: "set (add_keys acc ks) = set acc \<union> set ks"
  by (induction ks arbitrary: acc) auto

lemma set_fold_add_keys:
  "set (fold (\<lambda>r acc. add_keys acc (map fst r)) rs acc) = set acc \<union> (\<Union>r\<in>set rs. fst ` set r)"
  by (induction rs arbitrary: acc) (auto simp add: set_add_keys)

lemma set_column_labels: "set (column_labels rs) = (\<Union>r\<in>set rs. fst ` set r)"
  by (simp add: column_labels_def set_fold_add_keys)

text \<open>A column exists exactly when some dict has its label as a key.\<close>

lemma in_column_labels: "c \<in> set (column_labels rs) \<longleftrightarrow> list_ex (\<lambda>r. map_of r c \<noteq> None) rs"
  by (auto simp add: set_column_labels list_ex_iff map_of_eq_None_iff)

lemma handler_on_records:
  assumes "requests_get rt (URI m) = Inr r"
      and "json_loads rt (body r) = Some (JArr (map JObj rs))"
    shows "fst (handler m rt event context w) =
       (if \<not> list_ex (\<lambda>r. map_of r ''completed'' \<noteq> None) rs then Inl (KeyError ''completed'')
        else if \<not> list_all (\<lambda>r. plain_key (map_of r ''completed'')) rs
          then and_then (groupby_count_other rt ''completed'' ''id'' \<lparr>columns = column_labels rs, rows = rs\<rparr>)
                 (\<lambda>c. Inr [''CompletedCount'' \<mapsto> to_dict c])
        else if \<not> list_ex (\<lambda>r. map_of r ''id'' \<noteq> None) rs then Inl (KeyError ''id'')
        else Inr [''CompletedCount'' \<mapsto> to_dict (group_sizes ''completed'' ''id'' rs)])"
  using assms
  by (simp add: handler_outcome and_then_def json_def DataFrame_def as_records_map
      groupby_count_def in_column_labels)

subsection \<open>The sum of the group sizes\<close>

lemma sum_filter_by_key:
  assumes "finite A"
  shows "(\<Sum>k\<in>A. length (filter (\<lambda>r. g r = Some k \<and> P r) rs)) =
         length (filter (\<lambda>r. g r \<in> Some ` A \<and> P r) rs)"
proof (induction rs)
  case Nil
  show ?case by simp
next
  case (Cons r rs)
  have one: "(\<Sum>k\<in>A. if g r = Some k \<and> P r then 1 else 0) =
             (if g r \<in> Some ` A \<and> P r then 1 else (0::nat))"
  proof (cases "g r \<in> Some ` A \<and> P r")
    case True
    then obtain k0 where k0: "k0 \<in> A" "g r = Some k0" and p: "P r" by auto
    have "(\<Sum>k\<in>A. if g r = Some k \<and> P r then 1 else 0) = (\<Sum>k\<in>A. if k = k0 then 1 else (0::nat))"
      using k0 p by (intro sum.cong) auto
    also have "\<dots> = 1" using assms k0(1) by simp
    finally show ?thesis using True by simp
  next
    case False
    then have "(\<Sum>k\<in>A. if g r = Some k \<and> P r then 1 else 0) = (\<Sum>k\<in>A. (0::nat))"
      by (intro sum.cong) auto
    then show ?thesis using False by simp
  qed
  have "(\<Sum>k\<in>A. length (filter (\<lambda>r. g r = Some k \<and> P r) (r # rs))) =
        (\<Sum>k\<in>A. (if g r = Some k \<and> P r then 1 else 0) + length (filter (\<lambda>r. g r = Some k \<and> P r) rs))"
    by (intro sum.cong) auto
  also have "\<dots> = (if g r \<in> Some ` A \<and> P r then 1 else 0) + length (filter (\<lambda>r. g r \<in> Some ` A \<and> P r) rs)"
    by (simp only: sum.distrib one Cons.IH)
  also have "\<dots> = length (filter (\<lambda>r. g r \<in> Some ` A \<and> P r) (r # rs))"
    by simp
  finally show ?case .
qed

lemma dom_group_sizes:
  "dom (group_sizes by col rs) = {k. \<not> isna (Some k) \<and> Some k \<in> set (map (\<lambda>r. map_of r by) rs)}"
  by (auto simp add: group_sizes_def dom_def)

lemma finite_dom_group_sizes: "finite (dom (group_sizes by col rs))"
proof -
  have "dom (group_sizes by col rs) \<subseteq> (\<lambda>r. the (map_of r by)) ` set rs"
  proof
    fix k
    assume "k \<in> dom (group_sizes by col rs)"
    then obtain r where "r \<in> set rs" and "map_of r by = Some k"
      by (auto simp add: dom_group_sizes)
    then have "r \<in> set rs" and "k = the (map_of r by)" by simp_all
    then show "k \<in> (\<lambda>r. the (map_of r by)) ` set rs" by (rule rev_image_eqI)
  qed
  then show ?thesis by (rule finite_subset) simp
qed

lemma key_in_dom_group_sizes:
  assumes "x \<in> set rs"
  shows "map_of x by \<in> Some ` dom (group_sizes by col rs) \<longleftrightarrow> \<not> isna (map_of x by)"
proof (cases "map_of x by")
  case None
  then show ?thesis by (simp add: isna_def image_iff)
next
  case (Some k)
  have "Some k \<in> (\<lambda>r. map_of r by) ` set rs"
    using assms Some by (metis image_eqI)
  then show ?thesis using Some by (simp add: isna_def dom_group_sizes image_iff)
qed

lemma dom_to_dict: "dom (to_dict s) = dom s"
  by (auto simp add: to_dict_def dom_def)

text \<open>The counts add up to the rows that miss neither cell.\<close>

lemma sum_counts_group_sizes:
  "sum_counts (to_dict (group_sizes by col rs)) =
     int (length (filter (\<lambda>r. \<not> isna (map_of r by) \<and> \<not> isna (map_of r col)) rs))"
proof -
  let ?A = "dom (group_sizes by col rs)"
  have "sum_counts (to_dict (group_sizes by col rs)) =
          (\<Sum>k\<in>?A. int (length (filter (\<lambda>r. map_of r by = Some k \<and> \<not> isna (map_of r col)) rs)))"
    unfolding sum_counts_def dom_to_dict
    by (intro sum.cong) (auto simp add: to_dict_def group_sizes_def dom_def split: if_splits)
  also have "\<dots> = int (\<Sum>k\<in>?A. length (filter (\<lambda>r. map_of r by = Some k \<and> \<not> isna (map_of r col)) rs))"
    by simp
  also have "\<dots> = int (length (filter (\<lambda>r. map_of r by \<in> Some ` ?A \<and> \<not> isna (map_of r col)) rs))"
    by (simp only: sum_filter_by_key [OF finite_dom_group_sizes])
  also have "filter (\<lambda>r. map_of r by \<in> Some ` ?A \<and> \<not> isna (map_of r col)) rs =
             filter (\<lambda>r. \<not> isna (map_of r by) \<and> \<not> isna (map_of r col)) rs"
    by (rule filter_cong) (simp_all add: key_in_dom_group_sizes)
  finally show ?thesis .
qed

subsection \<open>The example upstreams\<close>

lemma upstream_get: "requests_get (upstream st b v) url = Inr \<lparr>status_code = st, body = b\<rparr>"
  by (simp add: upstream_def)

lemma upstream_loads:
  "json_loads (upstream st b v) (body \<lparr>status_code = st', body = b\<rparr>) = v"
  by (simp add: upstream_def)

lemma upstream_loads_text: "json_loads (upstream st b v) b = v"
  by (simp add: upstream_def)

lemma sizes_three:
  "to_dict (group_sizes ''completed'' ''id''
     [[(''id'', JInt 1), (''completed'', JBool True)],
      [(''id'', JInt 2), (''completed'', JBool False)],
      [(''id'', JInt 3), (''completed'', JBool True)]]) = [JBool True \<mapsto> 2, JBool False \<mapsto> 1]"
  by (auto simp add: to_dict_def group_sizes_def isna_def fun_eq_iff)

lemma sizes_partial:
  "to_dict (group_sizes ''completed'' ''id''
     [[(''id'', JInt 1), (''completed'', JBool True)],
      [(''id'', JInt 2), (''completed'', JBool False)],
      [(''id'', JInt 3)]]) = [JBool True \<mapsto> 1, JBool False \<mapsto> 1]"
  by (auto simp add: to_dict_def group_sizes_def isna_def fun_eq_iff)

lemma sizes_dropped:
  "to_dict (group_sizes ''completed'' ''id''
     [[(''id'', JInt 1)],
      [(''id'', JInt 2), (''completed'', JNull)],
      [(''id'', JInt 3), (''completed'', JBool False)]]) = [JBool False \<mapsto> 1]"
  by (auto simp add: to_dict_def group_sizes_def isna_def fun_eq_iff)

lemma sizes_one:
  "to_dict (group_sizes ''completed'' ''id'' [[(''id'', JInt 1), (''completed'', JBool True)]])
     = [JBool True \<mapsto> 1]"
  by (auto simp add: to_dict_def group_sizes_def isna_def fun_eq_iff)

lemma handler_partial:
  "fst (handler m
     (upstream st partial_body (Some (JArr [todo 1 True, todo 2 False, JObj [(''id'', JInt 3)]])))
     event context w) = Inr [''CompletedCount'' \<mapsto> [JBool True \<mapsto> 1, JBool False \<mapsto> 1]]"
proof -
  let ?rs = "[[(''id'', JInt 1), (''completed'', JBool True)],
              [(''id'', JInt 2), (''completed'', JBool False)],
              [(''id'', JInt 3)]]"
  have "json_loads (upstream st partial_body (Some (JArr [todo 1 True, todo 2 False, JObj [(''id'', JInt 3)]])))
          (body \<lparr>status_code = st, body = partial_body\<rparr>) = Some (JArr (map JObj ?rs))"
    by (simp add: upstream_loads_text todo_def)
  from handler_on_records [OF upstream_get this] show ?thesis
    by (simp only: sizes_partial) simp
qed

lemma handler_dropped:
  "fst (handler m
     (upstream st dropped_body
        (Some (JArr (map JObj [[(''id'', JInt 1)],
                               [(''id'', JInt 2), (''completed'', JNull)],
                               [(''id'', JInt 3), (''completed'', JBool False)]]))))
     event context w) = Inr [''CompletedCount'' \<mapsto> [JBool False \<mapsto> 1]]"
proof -
  let ?rs = "[[(''id'', JInt 1)],
              [(''id'', JInt 2), (''completed'', JNull)],
              [(''id'', JInt 3), (''completed'', JBool False)]]"
  have "json_loads (upstream st dropped_body (Some (JArr (map JObj ?rs))))
          (body \<lparr>status_code = st, body = dropped_body\<rparr>) = Some (JArr (map JObj ?rs))"
    by (rule upstream_loads)
  from handler_on_records [OF upstream_get this] show ?thesis
    by (simp only: sizes_dropped) simp
qed



lemma handler_one:
  "fst (handler m (upstream st one_body (Some (JArr [todo 1 True]))) event context w) =
     Inr [''CompletedCount'' \<mapsto> [JBool True \<mapsto> 1]]"
proof -
  let ?rs = "[[(''id'', JInt 1), (''completed'', JBool True)]]"
  have "json_loads (upstream st one_body (Some (JArr [todo 1 True])))
          (body \<lparr>status_code = st, body = one_body\<rparr>) = Some (JArr (map JObj ?rs))"
    by (simp add: upstream_loads_text todo_def)
  from handler_on_records [OF upstream_get this] show ?thesis
    by (simp only: sizes_one) simp
qed

text \<open>Replacing the response of the server leaves the other libraries as they are.\<close>

lemma json_requests_get_update: "json (rt\<lparr>requests_get := g\<rparr>) = json rt"
  by (rule ext) (simp add: json_def)

lemma DataFrame_requests_get_update: "DataFrame (rt\<lparr>requests_get := g\<rparr>) = DataFrame rt"
  by (rule ext) (simp add: DataFrame_def split: json.splits option.splits)

lemma groupby_count_requests_get_update:
  "groupby_count (rt\<lparr>requests_get := g\<rparr>) by col = groupby_count rt by col"
  by (rule ext) (simp add: groupby_count_def)

section \<open>The claims\<close>

text \<open>
  C1. When the decoded body of the response is the three records
  \<open>{id: 1, completed: true}\<close>, \<open>{id: 2, completed: false}\<close>, \<open>{id: 3, completed: true}\<close>, the
  handler returns the dict with the single key \<open>CompletedCount\<close>, whose value maps \<open>true\<close>
  to 2 and \<open>false\<close> to 1 and has no other key.
\<close>

theorem handler_three_todos:
  assumes "requests_get rt (URI m) = Inr r"
      and "json_loads rt (body r) = Some (JArr [todo 1 True, todo 2 False, todo 3 True])"
    shows "fst (handler m rt event context w) =
             Inr [''CompletedCount'' \<mapsto> [JBool True \<mapsto> 2, JBool False \<mapsto> 1]]"
proof -
  let ?rs = "[[(''id'', JInt 1), (''completed'', JBool True)],
              [(''id'', JInt 2), (''completed'', JBool False)],
              [(''id'', JInt 3), (''completed'', JBool True)]]"
  have "json_loads rt (body r) = Some (JArr (map JObj ?rs))"
    using assms(2) by (simp add: todo_def)
  from handler_on_records [OF assms(1) this] show ?thesis
    by (simp only: sizes_three) simp
qed

theorem handler_three_todos_witness:
  "fst (handler module0
         (upstream 200 todos_body (Some (JArr [todo 1 True, todo 2 False, todo 3 True])))
         () () (fresh Map.empty))
     = Inr [''CompletedCount'' \<mapsto> [JBool True \<mapsto> 2, JBool False \<mapsto> 1]]"
  by (rule handler_three_todos [OF upstream_get upstream_loads])

text \<open>
  C2, as amended. When the decoded body is a non-empty array of records, each with a
  boolean or string \<open>completed\<close> and an \<open>id\<close> that is present and not null, the handler
  returns, and the counts of the returned mapping add up to the number of records.
\<close>

theorem counts_sum_to_records:
  assumes "requests_get rt (URI m) = Inr r"
      and "json_loads rt (body r) = Some (JArr (map JObj rs))"
      and "rs \<noteq> []"
      and "\<forall>row\<in>set rs. plain_key (map_of row ''completed'') \<and> \<not> isna (map_of row ''completed'')
             \<and> \<not> isna (map_of row ''id'')"
    shows "\<exists>c. fst (handler m rt event context w) = Inr [''CompletedCount'' \<mapsto> c]
             \<and> sum_counts c = int (length rs)"
proof -
  from assms(3) obtain r0 where r0: "r0 \<in> set rs" by (cases rs) auto
  have ex1: "list_ex (\<lambda>r. map_of r ''completed'' \<noteq> None) rs"
    using assms(4) r0 by (auto simp add: list_ex_iff isna_def)
  have ex2: "list_ex (\<lambda>r. map_of r ''id'' \<noteq> None) rs"
    using assms(4) r0 by (auto simp add: list_ex_iff isna_def)
  have plain: "list_all (\<lambda>r. plain_key (map_of r ''completed'')) rs"
    using assms(4) by (simp add: list_all_iff)
  have all: "filter (\<lambda>r. \<not> isna (map_of r ''completed'') \<and> \<not> isna (map_of r ''id'')) rs = rs"
    using assms(4) by (simp add: filter_id_conv)
  have "fst (handler m rt event context w) =
          Inr [''CompletedCount'' \<mapsto> to_dict (group_sizes ''completed'' ''id'' rs)]"
    using handler_on_records [OF assms(1,2)] ex1 ex2 plain by simp
  moreover have "sum_counts (to_dict (group_sizes ''completed'' ''id'' rs)) = int (length rs)"
    by (simp only: sum_counts_group_sizes all)
  ultimately show ?thesis by blast
qed

theorem counts_sum_to_records_witness:
  "\<exists>c. fst (handler module0
              (upstream 200 one_body
                 (Some (JArr (map JObj [[(''id'', JInt 1), (''completed'', JBool True)]]))))
              () () (fresh Map.empty)) = Inr [''CompletedCount'' \<mapsto> c]
       \<and> sum_counts c = int (length [[(''id'', JInt 1), (''completed'', JBool True)]])"
proof -
  let ?rs = "[[(''id'', JInt 1), (''completed'', JBool True)]]"
  have h3: "?rs \<noteq> []" by simp
  have h4: "\<forall>row\<in>set ?rs. plain_key (map_of row ''completed'') \<and> \<not> isna (map_of row ''completed'')
             \<and> \<not> isna (map_of row ''id'')"
    by (simp add: isna_def)
  show ?thesis
    by (rule counts_sum_to_records [OF upstream_get upstream_loads h3 h4])
qed

text \<open>
  C2 as stated fails: of the three records below the third has no \<open>completed\<close> field;
  the counts returned add up to 2.
\<close>

theorem counts_sum_counterexample:
  "fst (handler module0
     (upstream 200 partial_body (Some (JArr [todo 1 True, todo 2 False, JObj [(''id'', JInt 3)]])))
     () () (fresh Map.empty)) = Inr [''CompletedCount'' \<mapsto> [JBool True \<mapsto> 1, JBool False \<mapsto> 1]]
   \<and> sum_counts [JBool True \<mapsto> 1, JBool False \<mapsto> 1] = 2
   \<and> length [todo 1 True, todo 2 False, JObj [(''id'', JInt 3)]] = 3"
  by (simp add: handler_partial sum_counts_def)

text \<open>
  C3, as amended. When the decoded body is the empty array, the handler does not return:
  the frame has no column \<open>completed\<close> and \<open>groupby\<close> raises \<open>KeyError\<close>.
\<close>

theorem handler_empty_array_fails:
  assumes "requests_get rt (URI m) = Inr r"
      and "json_loads rt (body r) = Some (JArr [])"
    shows "fst (handler m rt event context w) = Inl (KeyError ''completed'')"
  using assms
  by (simp add: handler_outcome and_then_def json_def DataFrame_def column_labels_def groupby_count_def)

theorem handler_empty_array_fails_witness:
  "fst (handler module0 (upstream 200 empty_body (Some (JArr []))) () () (fresh Map.empty)) =
     Inl (KeyError ''completed'')"
  by (rule handler_empty_array_fails [OF upstream_get upstream_loads])

text \<open>C3 as stated fails: on the empty array the result is not \<open>{CompletedCount: {}}\<close>.\<close>

theorem handler_empty_array_counterexample:
  "fst (handler module0 (upstream 200 empty_body (Some (JArr []))) () () (fresh Map.empty))
     \<noteq> Inr [''CompletedCount'' \<mapsto> Map.empty]"
  by (simp add: handler_outcome and_then_def json_def DataFrame_def column_labels_def
      groupby_count_def upstream_def)

text \<open>
  C4, as amended. When the decoded body is an array of records whose \<open>completed\<close> cells
  are missing, null, booleans or strings, and the handler returns, then the returned
  mapping has no key for the missing value, the count of each key is the number of records
  with that very value of \<open>completed\<close> (and an \<open>id\<close>), and the counts add up to the number
  of records that miss neither \<open>completed\<close> nor \<open>id\<close>: a record without \<open>completed\<close>, or
  with null there, is counted under no key.
\<close>

theorem missing_completed_not_counted:
  assumes "requests_get rt (URI m) = Inr r"
      and "json_loads rt (body r) = Some (JArr (map JObj rs))"
      and "\<forall>row\<in>set rs. plain_key (map_of row ''completed'')"
      and "fst (handler m rt event context w) = Inr d"
    shows "\<exists>c. d = [''CompletedCount'' \<mapsto> c] \<and> c JNull = None
             \<and> (\<forall>k n. c k = Some n \<longrightarrow>
                   n = int (length (filter (\<lambda>row. map_of row ''completed'' = Some k
                                                  \<and> \<not> isna (map_of row ''id'')) rs)))
             \<and> sum_counts c = int (length (filter (\<lambda>row. \<not> isna (map_of row ''completed'')
                                                  \<and> \<not> isna (map_of row ''id'')) rs))"
proof -
  have plain: "list_all (\<lambda>r. plain_key (map_of r ''completed'')) rs"
    using assms(3) by (simp add: list_all_iff)
  have d: "d = [''CompletedCount'' \<mapsto> to_dict (group_sizes ''completed'' ''id'' rs)]"
    using handler_on_records [OF assms(1,2), of "event" "context" w] assms(4) plain
    by (simp split: if_splits)
  have "to_dict (group_sizes ''completed'' ''id'' rs) JNull = None"
    by (simp add: to_dict_def group_sizes_def isna_def)
  moreover have "\<forall>k n. to_dict (group_sizes ''completed'' ''id'' rs) k = Some n \<longrightarrow>
      n = int (length (filter (\<lambda>row. map_of row ''completed'' = Some k \<and> \<not> isna (map_of row ''id'')) rs))"
    by (auto simp add: to_dict_def group_sizes_def split: if_splits)
  ultimately show ?thesis
    using d sum_counts_group_sizes [of "''completed''" "''id''" rs] by blast
qed

theorem missing_completed_not_counted_witness:
  "\<exists>c. [''CompletedCount'' \<mapsto> [JBool False \<mapsto> 1]] = [''CompletedCount'' \<mapsto> c] \<and> c JNull = None
     \<and> (\<forall>k n. c k = Some n \<longrightarrow>
           n = int (length (filter (\<lambda>row. map_of row ''completed'' = Some k
                                          \<and> \<not> isna (map_of row ''id''))
                 [[(''id'', JInt 1)],
                  [(''id'', JInt 2), (''completed'', JNull)],
                  [(''id'', JInt 3), (''completed'', JBool False)]])))
     \<and> sum_counts c = int (length (filter (\<lambda>row. \<not> isna (map_of row ''completed'')
                                          \<and> \<not> isna (map_of row ''id''))
                 [[(''id'', JInt 1)],
                  [(''id'', JInt 2), (''completed'', JNull)],
                  [(''id'', JInt 3), (''completed'', JBool False)]]))"
proof -
  let ?rs = "[[(''id'', JInt 1)],
              [(''id'', JInt 2), (''completed'', JNull)],
              [(''id'', JInt 3), (''completed'', JBool False)]]"
  have h3: "\<forall>row\<in>set ?rs. plain_key (map_of row ''completed'')" by simp
  show ?thesis
    by (rule missing_completed_not_counted [OF upstream_get upstream_loads h3 handler_dropped])
qed

text \<open>
  C4 as stated fails: the first record below has no \<open>completed\<close> field and the second has
  null there; the returned mapping has the one key \<open>false\<close>, with count 1, so neither
  record is counted under any key.
\<close>

theorem missing_completed_counterexample:
  "fst (handler module0
     (upstream 200 dropped_body
        (Some (JArr (map JObj [[(''id'', JInt 1)],
                               [(''id'', JInt 2), (''completed'', JNull)],
                               [(''id'', JInt 3), (''completed'', JBool False)]]))))
     () () (fresh Map.empty)) = Inr [''CompletedCount'' \<mapsto> [JBool False \<mapsto> 1]]
   \<and> dom [JBool False \<mapsto> (1::int)] = {JBool False}"
proof
  show "dom [JBool False \<mapsto> (1::int)] = {JBool False}" by simp
qed (rule handler_dropped)

text \<open>
  C5, as amended. When \<open>requests.get\<close> raises (the host is unreachable), the invocation
  fails with that error and returns no result. The status code of a response is not
  inspected: the outcome for a response is the outcome for the same response with any
  other status code.
\<close>

theorem status_not_inspected:
  "(requests_get rt (URI m) = Inl e \<longrightarrow> fst (handler m rt event context w) = Inl e) \<and>
   (requests_get rt (URI m) = Inr r \<longrightarrow>
      fst (handler m (rt\<lparr>requests_get := (\<lambda>url. Inr (r\<lparr>status_code := st\<rparr>))\<rparr>) event context w) =
      fst (handler m rt event context w))"
  by (simp add: handler_outcome and_then_def json_requests_get_update
      DataFrame_requests_get_update groupby_count_requests_get_update)
     (simp add: json_def)

theorem status_not_inspected_witness:
  "fst (handler module0 unreachable () () (fresh Map.empty)) = Inl (RequestException ''ConnectionError'')
   \<and> fst (handler module0
       ((upstream 200 one_body (Some (JArr [todo 1 True])))
          \<lparr>requests_get := (\<lambda>url. Inr (\<lparr>status_code = 200, body = one_body\<rparr>\<lparr>status_code := 500\<rparr>))\<rparr>)
       () () (fresh Map.empty)) =
     fst (handler module0 (upstream 200 one_body (Some (JArr [todo 1 True]))) () () (fresh Map.empty))"
proof -
  have h1: "requests_get unreachable (URI module0) = Inl (RequestException ''ConnectionError'')"
    by (simp add: unreachable_def)
  have h2: "requests_get (upstream 200 one_body (Some (JArr [todo 1 True]))) (URI module0) =
              Inr \<lparr>status_code = 200, body = one_body\<rparr>"
    by (rule upstream_get)
  show ?thesis
    using status_not_inspected [of unreachable module0 "RequestException ''ConnectionError''" "()" "()"
        "fresh Map.empty"] h1
      status_not_inspected [of "upstream 200 one_body (Some (JArr [todo 1 True]))" module0 _ "()" "()"
        "fresh Map.empty" "\<lparr>status_code = 200, body = one_body\<rparr>" 500] h2
    by blast
qed

text \<open>
  C5 as stated fails: the server answers 404 with a body that decodes to one record, and
  the invocation returns a result.
\<close>

theorem non_200_counterexample:
  "requests_get (upstream 404 one_body (Some (JArr [todo 1 True]))) (URI module0) =
     Inr \<lparr>status_code = 404, body = one_body\<rparr>
   \<and> fst (handler module0 (upstream 404 one_body (Some (JArr [todo 1 True]))) () () (fresh Map.empty)) =
     Inr [''CompletedCount'' \<mapsto> [JBool True \<mapsto> 1]]"
  by (simp add: handler_one upstream_get)




text \<open>
  C7. The URL comes from the environment variable \<open>URI\<close> read when the module is loaded:
  when the variable is set, the handler calls \<open>requests.get\<close> once, with its value; when
  it is not set, with \<open>https://jsonplaceholder.typicode.com/todos\<close>.
\<close>

theorem URI_from_environment:
  "(environ w0 ''URI'' = Some u \<longrightarrow>
      get_calls (snd (handler (load_module w0) rt event context w)) = get_calls w @ [u]) \<and>
   (environ w0 ''URI'' = None \<longrightarrow>
      get_calls (snd (handler (load_module w0) rt event context w)) =
        get_calls w @ [''https://jsonplaceholder.typicode.com/todos''])"
  by (simp add: handler_world load_module_def getenv_def default_URI_def)

theorem URI_from_environment_witness:
  "get_calls (snd (handler (load_module (fresh [''URI'' \<mapsto> ''http://localhost:8080/todos'']))
       unreachable () () (fresh Map.empty))) = [''http://localhost:8080/todos'']
   \<and> get_calls (snd (handler (load_module (fresh Map.empty)) unreachable () () (fresh Map.empty))) =
       [''https://jsonplaceholder.typicode.com/todos'']"
  using URI_from_environment [of "fresh [''URI'' \<mapsto> ''http://localhost:8080/todos'']"
      "''http://localhost:8080/todos''" unreachable "()" "()" "fresh Map.empty"]
    URI_from_environment [of "fresh Map.empty" "[]" unreachable "()" "()" "fresh Map.empty"]
  by (simp add: fresh_def)

text \<open>
  C8. The event and the context do not influence an invocation: with the same module,
  libraries and process state, any two events and contexts give the same result and the
  same final state.
\<close>

theorem handler_ignores_event_context:
  "handler m rt event1 context1 w = handler m rt event2 context2 w"
  by (simp add: handler_def)

text \<open>
  C9. The environment is read when the module is loaded and not by the handler: whatever
  the environment is when the handler is invoked, it calls \<open>requests.get\<close> with the URL
  fixed at load time, and its result is the same.
\<close>

theorem URI_fixed_at_load:
  "get_calls (snd (handler (load_module w0) rt event context (w\<lparr>environ := env'\<rparr>))) =
     get_calls w @ [getenv (environ w0) ''URI'' default_URI]
   \<and> fst (handler (load_module w0) rt event context (w\<lparr>environ := env'\<rparr>)) =
     fst (handler (load_module w0) rt event context w)"
  by (simp add: handler_world handler_outcome load_module_def)

text \<open>
  C10. A successful invocation returns a dict with exactly one key, \<open>CompletedCount\<close>,
  whose value maps labels to integers that are not negative.
\<close>

theorem handler_result_shape:
  assumes "fst (handler m rt event context w) = Inr d"
  shows "dom d = {''CompletedCount''} \<and>
         (\<exists>c. d ''CompletedCount'' = Some c \<and> (\<forall>k n. c k = Some n \<longrightarrow> 0 \<le> n))"
  using assms
  by (auto simp add: handler_outcome and_then_def to_dict_def split: sum.splits if_splits)

theorem handler_result_shape_witness:
  "dom [''CompletedCount'' \<mapsto> [JBool True \<mapsto> 1, JBool False \<mapsto> (1::int)]] = {''CompletedCount''} \<and>
   (\<exists>c. [''CompletedCount'' \<mapsto> [JBool True \<mapsto> 1, JBool False \<mapsto> (1::int)]] ''CompletedCount'' = Some c
        \<and> (\<forall>k n. c k = Some n \<longrightarrow> 0 \<le> n))"
  by (rule handler_result_shape [OF handler_partial [of module0 200 "()" "()" "fresh Map.empty"]])

end
